theory Spec2Isabelle
  imports Main
begin

section \<open>Values shared by the whole service\<close>

text \<open>
  The service (api/main.py) coordinates an external graph-memory engine and an external
  graph database. Both are outside the repository: the model takes what they return as
  arguments (records of functions), and every exception they can raise is a value.
  An exception caught by \<open>except Exception as e\<close> is identified with \<open>str(e)\<close>.
\<close>

type_synonym exn = string

datatype error = ValueError string

datatype level = INFO | WARNING | ERROR

type_synonym log_record = "level \<times> string"

text \<open>
  A \<open>datetime\<close> is read by the service only through \<open>isoformat()\<close>, so a value is
  represented by the string \<open>isoformat()\<close> gives for it.
\<close>

datatype datetime = Datetime (isoformat: string)

subsection \<open>Module-level configuration and globals\<close>

text \<open>
  The constants read from the environment when the module is loaded (lines 22-28), and
  whether \<open>from graphiti_core.llm_client.anthropic_client import AnthropicClient\<close>
  succeeds in this runtime (an ImportError otherwise).
\<close>

record config =
  FALKORDB_HOST :: string
  FALKORDB_PORT :: int
  FALKORDB_PASSWORD :: "string option"
  EMBEDDER_API_KEY :: string
  anthropic_installed :: bool

record falkor_driver =
  host :: string
  port :: int
  password :: "string option"

text \<open>
  The state of the process: the two module globals \<open>driver\<close> and \<open>indices_built\<close>, what
  the logger has written, and two instrumentation fields that the code does not have:
  the client constructors that were called, in order, and how many times
  \<open>build_indices_and_constraints\<close> was awaited.
\<close>

record proc =
  driver :: "falkor_driver option"
  indices_built :: bool
  logged :: "log_record list"
  constructed :: "string list"
  build_calls :: nat

definition initial_proc :: proc where
  "initial_proc =
     \<lparr>driver = None, indices_built = False, logged = [], constructed = [], build_calls = 0\<rparr>"

definition logger :: "level \<Rightarrow> string \<Rightarrow> proc \<Rightarrow> proc" where
  "logger lvl msg s = s\<lparr>logged := logged s @ [(lvl, msg)]\<rparr>"

definition construct :: "string \<Rightarrow> proc \<Rightarrow> proc" where
  "construct cls s = s\<lparr>constructed := constructed s @ [cls]\<rparr>"

definition get_driver :: "config \<Rightarrow> proc \<Rightarrow> falkor_driver \<times> proc" where
  "get_driver cfg s =
     (case driver s of
        None \<Rightarrow>
          (let d = \<lparr>host = FALKORDB_HOST cfg, port = FALKORDB_PORT cfg,
                     password = (case FALKORDB_PASSWORD cfg of
                                   None \<Rightarrow> None
                                 | Some p \<Rightarrow> if p \<noteq> [] then Some p else None)\<rparr>
           in (d, s\<lparr>driver := Some d\<rparr>))
      | Some d \<Rightarrow> (d, s))"

section \<open>The credential router: make_graphiti\<close>

record llm_config =
  api_key :: string
  model :: "string option"
  small_model :: "string option"
  temperature :: "int option"

datatype llm_client = AnthropicClient llm_config | OpenAIClient llm_config

record embedder_config =
  embedder_api_key :: string
  embedding_model :: "string option"

datatype embedder_client = OpenAIEmbedder embedder_config

datatype reranker_client = OpenAIRerankerClient llm_config

record graphiti =
  graph_driver :: falkor_driver
  llm_client :: llm_client
  embedder :: embedder_client
  cross_encoder :: reranker_client

definition missing_embedder_key_message :: string where
  "missing_embedder_key_message =
     ''Embeddings require an OpenAI API key. Either use OpenAI as your LLM provider, '' @
     ''or set OPENAI_API_KEY on the server for embeddings.''"

definition anthropic_not_installed_message :: string where
  "anthropic_not_installed_message =
     ''Anthropic support requires: pip install graphiti-core[anthropic]''"

text \<open>Lines 47-53: the local variable \<open>effective_embedder_key\<close>.\<close>

definition effective_embedder_key :: "config \<Rightarrow> string \<Rightarrow> string \<Rightarrow> string \<Rightarrow> string" where
  "effective_embedder_key cfg llm_provider llm_api_key embedder_key =
     (if llm_provider = ''openai'' then llm_api_key
      else if embedder_key \<noteq> [] then embedder_key
      else if EMBEDDER_API_KEY cfg \<noteq> [] then EMBEDDER_API_KEY cfg
      else [])"

text \<open>Lines 61-83: the language-model client, or the ValueError of the failed import.\<close>

definition make_llm_client :: "config \<Rightarrow> string \<Rightarrow> string \<Rightarrow> proc \<Rightarrow> (error + llm_client) \<times> proc" where
  "make_llm_client cfg llm_provider llm_api_key s =
     (if llm_provider = ''anthropic'' then
        (if \<not> anthropic_installed cfg
         then (Inl (ValueError anthropic_not_installed_message), s)
         else (Inr (AnthropicClient
                 \<lparr>api_key = llm_api_key,
                  model = Some ''claude-haiku-4-5-20251001'',
                  small_model = Some ''claude-haiku-4-5-20251001'',
                  temperature = Some 0\<rparr>),
               construct ''AnthropicClient'' s))
      else (Inr (OpenAIClient
              \<lparr>api_key = llm_api_key,
               model = Some ''gpt-4.1-mini'',
               small_model = Some ''gpt-4.1-nano'',
               temperature = Some 0\<rparr>),
            construct ''OpenAIClient'' s))"

definition make_graphiti ::
  "config \<Rightarrow> proc \<Rightarrow> string \<Rightarrow> string \<Rightarrow> string \<Rightarrow> (error + graphiti) \<times> proc" where
  "make_graphiti cfg s llm_provider llm_api_key embedder_key =
     (let key = effective_embedder_key cfg llm_provider llm_api_key embedder_key in
      if key = [] then (Inl (ValueError missing_embedder_key_message), s)
      else
        (case make_llm_client cfg llm_provider llm_api_key s of
           (Inl err, s1) \<Rightarrow> (Inl err, s1)
         | (Inr llm, s1) \<Rightarrow>
             (let emb = OpenAIEmbedder
                          \<lparr>embedder_api_key = key,
                           embedding_model = Some ''text-embedding-3-small''\<rparr>;
                  s2 = construct ''OpenAIEmbedder'' s1;
                  reranker = OpenAIRerankerClient
                               \<lparr>api_key = key, model = None, small_model = None,
                                temperature = None\<rparr>;
                  s3 = construct ''OpenAIRerankerClient'' s2;
                  (d, s4) = get_driver cfg s3
              in (Inr \<lparr>graph_driver = d, llm_client = llm, embedder = emb,
                        cross_encoder = reranker\<rparr>, s4))))"

text \<open>The credentials a constructed client set carries.\<close>

fun llm_credential :: "graphiti \<Rightarrow> string" where
  "llm_credential g =
     (case llm_client g of AnthropicClient c \<Rightarrow> api_key c | OpenAIClient c \<Rightarrow> api_key c)"

fun embedding_credential :: "graphiti \<Rightarrow> string" where
  "embedding_credential g = (case embedder g of OpenAIEmbedder c \<Rightarrow> embedder_api_key c)"

fun reranking_credential :: "graphiti \<Rightarrow> string" where
  "reranking_credential g = (case cross_encoder g of OpenAIRerankerClient c \<Rightarrow> api_key c)"

section \<open>Python string operations the service calls\<close>

text \<open>
  Strings are byte lists. \<open>lower\<close> and \<open>strip\<close> act on ASCII: a letter outside ASCII is
  left as it is and only ASCII whitespace is stripped (Python's \<open>str.lower\<close> and
  \<open>str.strip\<close> also know the cased letters and the spaces of the rest of Unicode).
\<close>

definition lower_char :: "char \<Rightarrow> char" where
  "lower_char c =
     (let n = (of_char c :: nat) in if 65 \<le> n \<and> n \<le> 90 then char_of (n + 32) else c)"

definition lower :: "string \<Rightarrow> string" where
  "lower s = map lower_char s"

definition isspace :: "char \<Rightarrow> bool" where
  "isspace c =
     (let n = (of_char c :: nat) in (9 \<le> n \<and> n \<le> 13) \<or> (28 \<le> n \<and> n \<le> 32))"

definition strip :: "string \<Rightarrow> string" where
  "strip s = rev (dropWhile isspace (rev (dropWhile isspace s)))"

text \<open>
  \<open>s.replace(old, new)\<close> for a non-empty \<open>old\<close>: every occurrence, left to right, without
  overlap.
\<close>

function replace :: "string \<Rightarrow> string \<Rightarrow> string \<Rightarrow> string" where
  "replace s old new =
     (if s = [] \<or> old = [] then s
      else if take (length old) s = old then new @ replace (drop (length old) s) old new
      else hd s # replace (tl s) old new)"
  by pat_completeness auto
termination
  by (relation "measure (\<lambda>(s, old, new). length s)") auto

declare replace.simps [simp del]

definition dict_get :: "('k \<rightharpoonup> 'v) \<Rightarrow> 'k \<Rightarrow> 'v \<Rightarrow> 'v" where
  "dict_get m k d = (case m k of None \<Rightarrow> d | Some v \<Rightarrow> v)"

section \<open>The external engine\<close>

text \<open>
  The records the engine hands out (graphiti_core's EntityNode and EntityEdge), with the
  fields the service reads. A field the code guards with \<open>or\<close>, \<open>if\<close> or \<open>hasattr\<close> is
  optional here: \<open>None\<close> is the absent attribute or Python's \<open>None\<close>.
\<close>

record entity_node =
  node_uuid :: string
  node_name :: string
  node_summary :: "string option"
  node_labels :: "string list"
  node_created_at :: "datetime option"

record entity_edge =
  edge_uuid :: string
  source_node_uuid :: string
  target_node_uuid :: string
  edge_fact :: "string option"
  edge_name :: "string option"
  valid_at :: "datetime option"
  invalid_at :: "datetime option"

text \<open>
  The engine, as far as the service calls it. \<open>build_indices_and_constraints\<close> gives
  \<open>None\<close> when the call returns and \<open>Some e\<close> when it raises the exception \<open>e\<close>;
  \<open>engine_search g query group_ids num_results\<close> is \<open>graphiti.search\<close>.
\<close>

record engine =
  build_indices_and_constraints :: "graphiti \<Rightarrow> exn option"
  engine_search :: "graphiti \<Rightarrow> string \<Rightarrow> string list \<Rightarrow> int \<Rightarrow> exn + entity_edge list"

section \<open>The index lifecycle: ensure_indices\<close>

definition ensure_indices :: "engine \<Rightarrow> graphiti \<Rightarrow> proc \<Rightarrow> proc" where
  "ensure_indices eng g s =
     (if indices_built s then s
      else
        (let s1 = s\<lparr>build_calls := Suc (build_calls s)\<rparr> in
         case build_indices_and_constraints eng g of
           None \<Rightarrow> logger INFO ''Graphiti indices built successfully'' (s1\<lparr>indices_built := True\<rparr>)
         | Some e \<Rightarrow> logger WARNING (''Failed to build indices: '' @ e) s1))"

text \<open>
  \<open>lifespan\<close>, before and after its \<open>yield\<close>. The constructors and \<open>ensure_indices\<close> raise
  nothing in this model, so the \<open>except\<close> branch of lines 196-197 is never taken. The
  dash of the message of line 200 is U+2014, three bytes in UTF-8.
\<close>

definition lifespan_startup :: "config \<Rightarrow> engine \<Rightarrow> proc \<Rightarrow> proc" where
  "lifespan_startup cfg eng s =
     (if EMBEDDER_API_KEY cfg \<noteq> [] then
        (let temp_llm = OpenAIClient
                          \<lparr>api_key = EMBEDDER_API_KEY cfg, model = Some ''gpt-4.1-mini'',
                           small_model = None, temperature = None\<rparr>;
             s1 = construct ''OpenAIClient'' s;
             temp_embedder = OpenAIEmbedder
                               \<lparr>embedder_api_key = EMBEDDER_API_KEY cfg,
                                embedding_model = None\<rparr>;
             s2 = construct ''OpenAIEmbedder'' s1;
             temp_reranker = OpenAIRerankerClient
                               \<lparr>api_key = EMBEDDER_API_KEY cfg, model = None,
                                small_model = None, temperature = None\<rparr>;
             s3 = construct ''OpenAIRerankerClient'' s2;
             (d, s4) = get_driver cfg s3
         in ensure_indices eng
              \<lparr>graph_driver = d, llm_client = temp_llm, embedder = temp_embedder,
               cross_encoder = temp_reranker\<rparr> s4)
      else logger INFO
             (''OPENAI_API_KEY not set '' @ [CHR 0xE2, CHR 0x80, CHR 0x94] @
              '' indices will be built on first ingest.'') s)"

definition lifespan_shutdown :: "proc \<Rightarrow> proc" where
  "lifespan_shutdown s = s\<lparr>driver := None\<rparr>"

section \<open>The graph materializer: build_graph_response\<close>

text \<open>
  The graph database, as far as the materializer calls it: \<open>driver.clone(session_id)\<close>,
  \<open>EntityNode.get_by_group_ids\<close> and \<open>EntityEdge.get_by_group_ids\<close>. \<open>Inl e\<close> is the
  exception \<open>e\<close> raised by the call.
\<close>

record store =
  clone :: "falkor_driver \<Rightarrow> string \<Rightarrow> exn + falkor_driver"
  get_nodes_by_group_ids :: "falkor_driver \<Rightarrow> string list \<Rightarrow> exn + entity_node list"
  get_edges_by_group_ids :: "falkor_driver \<Rightarrow> string list \<Rightarrow> exn + entity_edge list"

text \<open>The response models GraphEntity, GraphRelationship and KnowledgeGraphResponse.\<close>

record graph_entity =
  ent_id :: string
  ent_name :: string
  ent_summary :: string
  ent_type :: string
  ent_created_at :: string
  ent_degree :: int
  ent_community :: "int option"

record graph_relationship =
  rel_id :: string
  rel_source_id :: string
  rel_target_id :: string
  rel_fact :: string
  rel_type :: string
  rel_valid_at :: "string option"
  rel_invalid_at :: "string option"

record graph_metadata =
  meta_session_id :: string
  entity_count :: int
  relationship_count :: int
  last_updated :: string

record knowledge_graph_response =
  entities :: "graph_entity list"
  relationships :: "graph_relationship list"
  metadata :: graph_metadata

text \<open>Lines 247-250: the loop that fills \<open>degree_map\<close>, one edge at a time.\<close>

fun count_degrees :: "entity_edge list \<Rightarrow> (string \<rightharpoonup> int) \<Rightarrow> (string \<rightharpoonup> int)" where
  "count_degrees [] degree_map = degree_map"
| "count_degrees (edge # edges) degree_map =
     (let m1 = degree_map(source_node_uuid edge \<mapsto>
                  dict_get degree_map (source_node_uuid edge) 0 + 1);
          m2 = m1(target_node_uuid edge \<mapsto> dict_get m1 (target_node_uuid edge) 0 + 1)
      in count_degrees edges m2)"

text \<open>
  Lines 254-259: \<open>node_type\<close>. The inner loop stops at the first label that is not one
  of the three generic ones.
\<close>

definition generic_labels :: "string list" where
  "generic_labels = [''entity'', ''node'', ''entitynode'']"

fun first_specific_label :: "string list \<Rightarrow> string \<Rightarrow> string" where
  "first_specific_label [] node_type = node_type"
| "first_specific_label (label # labels) node_type =
     (if lower label \<notin> set generic_labels then lower label
      else first_specific_label labels node_type)"

definition infer_node_type :: "entity_node \<Rightarrow> string" where
  "infer_node_type node =
     (if node_labels node \<noteq> [] then first_specific_label (node_labels node) ''topic''
      else ''topic'')"

text \<open>Lines 261-268 and 273-283: one GraphEntity per node, one GraphRelationship per edge.\<close>

definition make_entity :: "(string \<rightharpoonup> int) \<Rightarrow> entity_node \<Rightarrow> graph_entity" where
  "make_entity degree_map node =
     \<lparr>ent_id = node_uuid node,
      ent_name = node_name node,
      ent_summary = (case node_summary node of None \<Rightarrow> [] | Some t \<Rightarrow> t),
      ent_type = infer_node_type node,
      ent_created_at = (case node_created_at node of None \<Rightarrow> [] | Some t \<Rightarrow> isoformat t),
      ent_degree = dict_get degree_map (node_uuid node) 0,
      ent_community = None\<rparr>"

definition make_relationship :: "entity_edge \<Rightarrow> graph_relationship" where
  "make_relationship edge =
     \<lparr>rel_id = edge_uuid edge,
      rel_source_id = source_node_uuid edge,
      rel_target_id = target_node_uuid edge,
      rel_fact = (case edge_fact edge of None \<Rightarrow> [] | Some t \<Rightarrow> t),
      rel_type = (case edge_name edge of
                    None \<Rightarrow> ''related_to''
                  | Some n \<Rightarrow> if n \<noteq> [] then n else ''related_to''),
      rel_valid_at = (case valid_at edge of None \<Rightarrow> None | Some t \<Rightarrow> Some (isoformat t)),
      rel_invalid_at = (case invalid_at edge of None \<Rightarrow> None | Some t \<Rightarrow> Some (isoformat t))\<rparr>"

text \<open>
  \<open>build_graph_response db now drv session_id s\<close>: \<open>drv\<close> is the parameter \<open>driver\<close> and
  \<open>now\<close> is what \<open>datetime.now(timezone.utc)\<close> gives at line 292. The call of
  \<open>driver.clone\<close> stands outside every \<open>try\<close>, so its exception leaves the function.
\<close>

definition build_graph_response ::
  "store \<Rightarrow> datetime \<Rightarrow> falkor_driver \<Rightarrow> string \<Rightarrow> proc \<Rightarrow> (exn + knowledge_graph_response) \<times> proc" where
  "build_graph_response db now drv session_id s =
     (case clone db drv session_id of
        Inl e \<Rightarrow> (Inl e, s)
      | Inr session_driver \<Rightarrow>
          (let (nodes, s1) =
                 (case get_nodes_by_group_ids db session_driver [session_id] of
                    Inl e \<Rightarrow>
                      ([], logger WARNING (''Failed to get nodes for '' @ session_id @ '': '' @ e) s)
                  | Inr ns \<Rightarrow> (ns, s));
               (edges, s2) =
                 (case get_edges_by_group_ids db session_driver [session_id] of
                    Inl e \<Rightarrow>
                      ([], logger WARNING (''Failed to get edges for '' @ session_id @ '': '' @ e) s1)
                  | Inr es \<Rightarrow> (es, s1));
               degree_map = count_degrees edges Map.empty;
               ents = map (make_entity degree_map) nodes;
               rels = map make_relationship edges
           in (Inr \<lparr>entities = ents, relationships = rels,
                     metadata = \<lparr>meta_session_id = session_id,
                                 entity_count = int (length ents),
                                 relationship_count = int (length rels),
                                 last_updated = isoformat now\<rparr>\<rparr>, s2)))"

section \<open>The search coordinator: search\<close>

record search_request =
  req_session_id :: string
  req_query :: string
  req_llm_provider :: string
  req_llm_api_key :: string
  req_openai_api_key :: string

record search_result =
  fact :: string
  source :: string
  target :: string

datatype http_exception = HTTPException (status_code: int) (detail: string)

definition make_search_result :: "entity_edge \<Rightarrow> search_result" where
  "make_search_result edge =
     \<lparr>fact = (case edge_fact edge of None \<Rightarrow> [] | Some t \<Rightarrow> t),
      source = source_node_uuid edge,
      target = target_node_uuid edge\<rparr>"

text \<open>
  The endpoint returns \<open>{"results": [...]}\<close>; the model returns the list under that key.
\<close>

definition search ::
  "config \<Rightarrow> engine \<Rightarrow> search_request \<Rightarrow> proc \<Rightarrow> (http_exception + search_result list) \<times> proc" where
  "search cfg eng req s =
     (if strip (req_query req) = [] then (Inl (HTTPException 400 ''Empty query''), s)
      else if req_llm_api_key req = [] then (Inl (HTTPException 400 ''LLM API key required''), s)
      else
        (case make_graphiti cfg s (req_llm_provider req) (req_llm_api_key req)
                (req_openai_api_key req) of
           (Inl (ValueError msg), s1) \<Rightarrow> (Inl (HTTPException 400 msg), s1)
         | (Inr g, s1) \<Rightarrow>
             (case engine_search eng g (req_query req) [req_session_id req] 20 of
                Inl e \<Rightarrow> (Inl (HTTPException 500 e), logger ERROR (''Search failed: '' @ e) s1)
              | Inr edges \<Rightarrow> (Inr (map make_search_result edges), s1))))"

section \<open>The ingestion coordinator: the reference time\<close>

text \<open>
  Lines 327-332 of \<open>ingest\<close>: \<open>ref_time\<close>. \<open>now\<close> is what \<open>datetime.now(timezone.utc)\<close>
  gives at line 327, \<open>fromisoformat\<close> is \<open>datetime.fromisoformat\<close> with \<open>None\<close> for the
  ValueError it raises, and \<open>timestamp\<close> is the field \<open>req.timestamp\<close>.
\<close>

definition ingest_ref_time ::
  "(string \<Rightarrow> datetime option) \<Rightarrow> datetime \<Rightarrow> string option \<Rightarrow> datetime" where
  "ingest_ref_time fromisoformat now timestamp =
     (case timestamp of
        None \<Rightarrow> now
      | Some ts \<Rightarrow>
          if ts = [] then now
          else (case fromisoformat (replace ts ''Z'' ''+00:00'') of
                  None \<Rightarrow> now
                | Some t \<Rightarrow> t))"

section \<open>The calls that touch the state of the process\<close>

text \<open>
  Every function of the module that reads or writes the globals, as one call each. The
  endpoints \<open>ingest\<close>, \<open>get_graph\<close> and \<open>search\<close> touch the globals only through them.
\<close>

datatype call =
    Call_get_driver
  | Call_make_graphiti string string string
  | Call_ensure_indices engine graphiti
  | Call_build_graph_response store datetime falkor_driver string
  | Call_search engine search_request
  | Call_lifespan_startup engine
  | Call_lifespan_shutdown

fun run_call :: "config \<Rightarrow> call \<Rightarrow> proc \<Rightarrow> proc" where
  "run_call cfg Call_get_driver s = snd (get_driver cfg s)"
| "run_call cfg (Call_make_graphiti llm_provider llm_api_key embedder_key) s =
     snd (make_graphiti cfg s llm_provider llm_api_key embedder_key)"
| "run_call cfg (Call_ensure_indices eng g) s = ensure_indices eng g s"
| "run_call cfg (Call_build_graph_response db now drv session_id) s =
     snd (build_graph_response db now drv session_id s)"
| "run_call cfg (Call_search eng req) s = snd (search cfg eng req s)"
| "run_call cfg (Call_lifespan_startup eng) s = lifespan_startup cfg eng s"
| "run_call cfg Call_lifespan_shutdown s = lifespan_shutdown s"

section \<open>Notions of the specification\<close>

text \<open>
  What a failed fetch is replaced by, and the counts the specification speaks of: the
  edges in which an id is the source or the target, and those in which it is both.
\<close>

definition or_empty :: "exn + 'a list \<Rightarrow> 'a list" where
  "or_empty r = (case r of Inl e \<Rightarrow> [] | Inr xs \<Rightarrow> xs)"

definition incident :: "string \<Rightarrow> entity_edge \<Rightarrow> bool" where
  "incident u edge = (source_node_uuid edge = u \<or> target_node_uuid edge = u)"

definition self_loop :: "string \<Rightarrow> entity_edge \<Rightarrow> bool" where
  "self_loop u edge = (source_node_uuid edge = u \<and> target_node_uuid edge = u)"

definition incident_count :: "string \<Rightarrow> entity_edge list \<Rightarrow> int" where
  "incident_count u edges = int (length (filter (incident u) edges))"

definition self_loop_count :: "string \<Rightarrow> entity_edge list \<Rightarrow> int" where
  "self_loop_count u edges = int (length (filter (self_loop u) edges))"

text \<open>The labels of a node that are not generic, in the order the node carries them.\<close>

definition descriptive_labels :: "string list \<Rightarrow> string list" where
  "descriptive_labels labels = filter (\<lambda>label. lower label \<notin> set generic_labels) labels"

section \<open>Concrete inputs\<close>

definition example_config :: config where
  "example_config =
     \<lparr>FALKORDB_HOST = ''localhost'', FALKORDB_PORT = 6379, FALKORDB_PASSWORD = None,
      EMBEDDER_API_KEY = ''sk-server'', anthropic_installed = True\<rparr>"

definition bare_config :: config where
  "bare_config =
     \<lparr>FALKORDB_HOST = ''localhost'', FALKORDB_PORT = 6379, FALKORDB_PASSWORD = None,
      EMBEDDER_API_KEY = [], anthropic_installed = False\<rparr>"

definition example_driver :: falkor_driver where
  "example_driver = \<lparr>host = ''localhost'', port = 6379, password = None\<rparr>"

definition example_now :: datetime where
  "example_now = Datetime ''2024-06-01T12:00:00+00:00''"

definition node_a :: entity_node where
  "node_a =
     \<lparr>node_uuid = ''a'', node_name = ''Alice'', node_summary = Some ''A person'',
      node_labels = [''Entity'', ''Person''],
      node_created_at = Some (Datetime ''2024-01-01T00:00:00+00:00'')\<rparr>"

definition node_b :: entity_node where
  "node_b =
     \<lparr>node_uuid = ''b'', node_name = ''Berlin'', node_summary = None,
      node_labels = [''Entity''], node_created_at = None\<rparr>"

definition edge_ab :: entity_edge where
  "edge_ab =
     \<lparr>edge_uuid = ''e1'', source_node_uuid = ''a'', target_node_uuid = ''b'',
      edge_fact = Some ''Alice lives in Berlin'', edge_name = Some ''LIVES_IN'',
      valid_at = Some (Datetime ''2024-01-01T00:00:00+00:00''), invalid_at = None\<rparr>"

definition edge_aa :: entity_edge where
  "edge_aa =
     \<lparr>edge_uuid = ''e2'', source_node_uuid = ''a'', target_node_uuid = ''a'',
      edge_fact = None, edge_name = Some [], valid_at = None, invalid_at = None\<rparr>"

definition store_of :: "(exn + entity_node list) \<Rightarrow> (exn + entity_edge list) \<Rightarrow> store" where
  "store_of ns es =
     \<lparr>clone = (\<lambda>d sid. Inr d),
      get_nodes_by_group_ids = (\<lambda>d gs. ns),
      get_edges_by_group_ids = (\<lambda>d gs. es)\<rparr>"

definition unreachable_store :: store where
  "unreachable_store =
     \<lparr>clone = (\<lambda>d sid. Inl ''connection refused''),
      get_nodes_by_group_ids = (\<lambda>d gs. Inr [node_a]),
      get_edges_by_group_ids = (\<lambda>d gs. Inr [edge_ab])\<rparr>"

definition engine_of :: "exn option \<Rightarrow> (exn + entity_edge list) \<Rightarrow> engine" where
  "engine_of built found =
     \<lparr>build_indices_and_constraints = (\<lambda>g. built),
      engine_search = (\<lambda>g q gs n. found)\<rparr>"

definition example_request :: search_request where
  "example_request =
     \<lparr>req_session_id = ''s1'', req_query = ''where does Alice live'',
      req_llm_provider = ''openai'', req_llm_api_key = ''sk-llm'', req_openai_api_key = []\<rparr>"

definition example_graphiti :: graphiti where
  "example_graphiti =
     \<lparr>graph_driver = example_driver,
      llm_client = OpenAIClient \<lparr>api_key = ''sk-llm'', model = Some ''gpt-4.1-mini'',
                     small_model = Some ''gpt-4.1-nano'', temperature = Some 0\<rparr>,
      embedder = OpenAIEmbedder \<lparr>embedder_api_key = ''sk-llm'',
                   embedding_model = Some ''text-embedding-3-small''\<rparr>,
      cross_encoder = OpenAIRerankerClient \<lparr>api_key = ''sk-llm'', model = None,
                        small_model = None, temperature = None\<rparr>\<rparr>"

text \<open>A parser that knows one timestamp and rejects every other string.\<close>

definition example_fromisoformat :: "string \<Rightarrow> datetime option" where
  "example_fromisoformat text =
     (if text = ''2024-01-01T00:00:00+00:00'' then Some (Datetime text) else None)"

section \<open>Properties of the credential router\<close>

text \<open>
  The three ways \<open>make_graphiti\<close> ends: no embedding credential, the Anthropic client not
  importable, or a client set whose embedder and reranker both carry the resolved key.
\<close>

lemma make_graphiti_fails:
  "effective_embedder_key cfg p k h = [] \<Longrightarrow>
     make_graphiti cfg s p k h = (Inl (ValueError missing_embedder_key_message), s)"
  by (simp add: make_graphiti_def)

lemma make_graphiti_not_installed:
  "effective_embedder_key cfg p k h \<noteq> [] \<Longrightarrow> p = ''anthropic'' \<Longrightarrow> \<not> anthropic_installed cfg \<Longrightarrow>
     make_graphiti cfg s p k h = (Inl (ValueError anthropic_not_installed_message), s)"
  by (simp add: make_graphiti_def make_llm_client_def)

lemma make_graphiti_succeeds:
  assumes "effective_embedder_key cfg p k h \<noteq> []" and "p = ''anthropic'' \<longrightarrow> anthropic_installed cfg"
  shows "\<exists>g. fst (make_graphiti cfg s p k h) = Inr g \<and>
            embedding_credential g = effective_embedder_key cfg p k h \<and>
            reranking_credential g = effective_embedder_key cfg p k h \<and>
            llm_credential g = k \<and>
            llm_client g = (if p = ''anthropic''
               then AnthropicClient \<lparr>api_key = k, model = Some ''claude-haiku-4-5-20251001'',
                      small_model = Some ''claude-haiku-4-5-20251001'', temperature = Some 0\<rparr>
               else OpenAIClient \<lparr>api_key = k, model = Some ''gpt-4.1-mini'',
                      small_model = Some ''gpt-4.1-nano'', temperature = Some 0\<rparr>)"
  using assms
  by (simp add: make_graphiti_def make_llm_client_def Let_def split: prod.splits)

lemma messages_differ: "anthropic_not_installed_message \<noteq> missing_embedder_key_message"
  by (simp add: anthropic_not_installed_message_def missing_embedder_key_message_def)

text \<open>
  C1. The embedding credential is resolved in this order. With provider \<open>openai\<close> it is
  the LLM key, whatever the hint is (an empty LLM key is then refused with the
  configuration error; both endpoints refuse an empty LLM key before they call the
  router). Otherwise it is the hint when the hint is not empty; otherwise the server's
  \<open>OPENAI_API_KEY\<close> when that is not empty; otherwise the call fails with the ValueError
  about the missing key. Whenever a client set is built, the reranker carries the same
  key as the embedder: the resolved embedding credential, not the LLM key of the
  request.
\<close>

theorem make_graphiti_embedding_priority:
  "(llm_provider = ''openai'' \<and> llm_api_key \<noteq> [] \<longrightarrow>
      (\<exists>g. fst (make_graphiti cfg s llm_provider llm_api_key embedder_key) = Inr g \<and>
           embedding_credential g = llm_api_key \<and> reranking_credential g = llm_api_key))
   \<and> (llm_provider = ''openai'' \<and> llm_api_key = [] \<longrightarrow>
        fst (make_graphiti cfg s llm_provider llm_api_key embedder_key) =
          Inl (ValueError missing_embedder_key_message))
   \<and> (llm_provider \<noteq> ''openai'' \<and> embedder_key \<noteq> [] \<and>
        (llm_provider = ''anthropic'' \<longrightarrow> anthropic_installed cfg) \<longrightarrow>
      (\<exists>g. fst (make_graphiti cfg s llm_provider llm_api_key embedder_key) = Inr g \<and>
           embedding_credential g = embedder_key \<and> reranking_credential g = embedder_key \<and>
           llm_credential g = llm_api_key))
   \<and> (llm_provider \<noteq> ''openai'' \<and> embedder_key = [] \<and> EMBEDDER_API_KEY cfg \<noteq> [] \<and>
        (llm_provider = ''anthropic'' \<longrightarrow> anthropic_installed cfg) \<longrightarrow>
      (\<exists>g. fst (make_graphiti cfg s llm_provider llm_api_key embedder_key) = Inr g \<and>
           embedding_credential g = EMBEDDER_API_KEY cfg \<and>
           reranking_credential g = EMBEDDER_API_KEY cfg \<and>
           llm_credential g = llm_api_key))
   \<and> (llm_provider \<noteq> ''openai'' \<and> embedder_key = [] \<and> EMBEDDER_API_KEY cfg = [] \<longrightarrow>
        fst (make_graphiti cfg s llm_provider llm_api_key embedder_key) =
          Inl (ValueError missing_embedder_key_message))
   \<and> (\<forall>g. fst (make_graphiti cfg s llm_provider llm_api_key embedder_key) = Inr g \<longrightarrow>
          reranking_credential g = embedding_credential g)"
proof (intro conjI impI allI)
  assume "llm_provider = ''openai'' \<and> llm_api_key \<noteq> []"
  then show "\<exists>g. fst (make_graphiti cfg s llm_provider llm_api_key embedder_key) = Inr g \<and>
           embedding_credential g = llm_api_key \<and> reranking_credential g = llm_api_key"
    using make_graphiti_succeeds [of cfg llm_provider llm_api_key embedder_key s]
    by (auto simp: effective_embedder_key_def)
next
  assume "llm_provider = ''openai'' \<and> llm_api_key = []"
  then show "fst (make_graphiti cfg s llm_provider llm_api_key embedder_key) =
          Inl (ValueError missing_embedder_key_message)"
    by (simp add: make_graphiti_fails effective_embedder_key_def)
next
  assume "llm_provider \<noteq> ''openai'' \<and> embedder_key \<noteq> [] \<and>
        (llm_provider = ''anthropic'' \<longrightarrow> anthropic_installed cfg)"
  then show "\<exists>g. fst (make_graphiti cfg s llm_provider llm_api_key embedder_key) = Inr g \<and>
           embedding_credential g = embedder_key \<and> reranking_credential g = embedder_key \<and>
           llm_credential g = llm_api_key"
    using make_graphiti_succeeds [of cfg llm_provider llm_api_key embedder_key s]
    by (auto simp: effective_embedder_key_def)
next
  assume "llm_provider \<noteq> ''openai'' \<and> embedder_key = [] \<and> EMBEDDER_API_KEY cfg \<noteq> [] \<and>
        (llm_provider = ''anthropic'' \<longrightarrow> anthropic_installed cfg)"
  then show "\<exists>g. fst (make_graphiti cfg s llm_provider llm_api_key embedder_key) = Inr g \<and>
           embedding_credential g = EMBEDDER_API_KEY cfg \<and>
           reranking_credential g = EMBEDDER_API_KEY cfg \<and>
           llm_credential g = llm_api_key"
    using make_graphiti_succeeds [of cfg llm_provider llm_api_key embedder_key s]
    by (auto simp: effective_embedder_key_def)
next
  assume "llm_provider \<noteq> ''openai'' \<and> embedder_key = [] \<and> EMBEDDER_API_KEY cfg = []"
  then show "fst (make_graphiti cfg s llm_provider llm_api_key embedder_key) =
          Inl (ValueError missing_embedder_key_message)"
    by (simp add: make_graphiti_fails effective_embedder_key_def)
next
  fix g
  assume "fst (make_graphiti cfg s llm_provider llm_api_key embedder_key) = Inr g"
  then show "reranking_credential g = embedding_credential g"
    by (auto simp: make_graphiti_def make_llm_client_def Let_def split: if_splits prod.splits)
qed

theorem make_graphiti_embedding_priority_witness:
  "(\<exists>g. fst (make_graphiti example_config initial_proc ''openai'' ''sk-llm'' ''sk-hint'') = Inr g \<and>
        embedding_credential g = ''sk-llm'' \<and> reranking_credential g = ''sk-llm'')
   \<and> fst (make_graphiti example_config initial_proc ''openai'' [] ''sk-hint'') =
        Inl (ValueError missing_embedder_key_message)
   \<and> (\<exists>g. fst (make_graphiti example_config initial_proc ''anthropic'' ''sk-ant'' ''sk-hint'') = Inr g \<and>
        embedding_credential g = ''sk-hint'' \<and> reranking_credential g = ''sk-hint'' \<and>
        llm_credential g = ''sk-ant'')
   \<and> (\<exists>g. fst (make_graphiti example_config initial_proc ''anthropic'' ''sk-ant'' []) = Inr g \<and>
        embedding_credential g = ''sk-server'' \<and> reranking_credential g = ''sk-server'' \<and>
        llm_credential g = ''sk-ant'')
   \<and> fst (make_graphiti bare_config initial_proc ''anthropic'' ''sk-ant'' []) =
        Inl (ValueError missing_embedder_key_message)"
  using make_graphiti_embedding_priority [of "''openai''" "''sk-llm''" example_config initial_proc "''sk-hint''"]
        make_graphiti_embedding_priority [of "''openai''" "[]" example_config initial_proc "''sk-hint''"]
        make_graphiti_embedding_priority [of "''anthropic''" "''sk-ant''" example_config initial_proc "''sk-hint''"]
        make_graphiti_embedding_priority [of "''anthropic''" "''sk-ant''" example_config initial_proc "[]"]
        make_graphiti_embedding_priority [of "''anthropic''" "''sk-ant''" bare_config initial_proc "[]"]
  by (simp add: example_config_def bare_config_def)

text \<open>
  C6. With provider \<open>anthropic\<close>, no hint and no server key, the router raises the
  ValueError about the missing key and the process state is untouched: no constructor
  has run. With provider \<open>anthropic\<close>, a resolvable key and no Anthropic support in the
  runtime, it raises the ValueError about the missing package, again before any
  constructor. No failing call has constructed a client, and the two messages differ.
\<close>

theorem make_graphiti_anthropic_failures:
  "(llm_provider = ''anthropic'' \<and> embedder_key = [] \<and> EMBEDDER_API_KEY cfg = [] \<longrightarrow>
      make_graphiti cfg s llm_provider llm_api_key embedder_key =
        (Inl (ValueError missing_embedder_key_message), s))
   \<and> (llm_provider = ''anthropic'' \<and> \<not> anthropic_installed cfg \<and>
        (embedder_key \<noteq> [] \<or> EMBEDDER_API_KEY cfg \<noteq> []) \<longrightarrow>
      make_graphiti cfg s llm_provider llm_api_key embedder_key =
        (Inl (ValueError anthropic_not_installed_message), s))
   \<and> (\<forall>e. fst (make_graphiti cfg s llm_provider llm_api_key embedder_key) = Inl e \<longrightarrow>
          constructed (snd (make_graphiti cfg s llm_provider llm_api_key embedder_key)) =
            constructed s)
   \<and> anthropic_not_installed_message \<noteq> missing_embedder_key_message"
proof (intro conjI impI allI)
  assume "llm_provider = ''anthropic'' \<and> embedder_key = [] \<and> EMBEDDER_API_KEY cfg = []"
  then show "make_graphiti cfg s llm_provider llm_api_key embedder_key =
        (Inl (ValueError missing_embedder_key_message), s)"
    by (simp add: make_graphiti_fails effective_embedder_key_def)
next
  assume "llm_provider = ''anthropic'' \<and> \<not> anthropic_installed cfg \<and>
        (embedder_key \<noteq> [] \<or> EMBEDDER_API_KEY cfg \<noteq> [])"
  then show "make_graphiti cfg s llm_provider llm_api_key embedder_key =
        (Inl (ValueError anthropic_not_installed_message), s)"
    by (intro make_graphiti_not_installed) (auto simp: effective_embedder_key_def)
next
  fix e
  assume "fst (make_graphiti cfg s llm_provider llm_api_key embedder_key) = Inl e"
  then show "constructed (snd (make_graphiti cfg s llm_provider llm_api_key embedder_key)) =
            constructed s"
    by (auto simp: make_graphiti_def make_llm_client_def Let_def split: if_splits prod.splits)
next
  show "anthropic_not_installed_message \<noteq> missing_embedder_key_message"
    by (rule messages_differ)
qed

theorem make_graphiti_anthropic_failures_witness:
  "make_graphiti bare_config initial_proc ''anthropic'' ''sk-ant'' [] =
     (Inl (ValueError missing_embedder_key_message), initial_proc)
   \<and> make_graphiti bare_config initial_proc ''anthropic'' ''sk-ant'' ''sk-hint'' =
     (Inl (ValueError anthropic_not_installed_message), initial_proc)
   \<and> constructed (snd (make_graphiti bare_config initial_proc ''anthropic'' ''sk-ant'' ''sk-hint'')) = []"
  using make_graphiti_anthropic_failures [of "''anthropic''" "[]" bare_config initial_proc "''sk-ant''"]
        make_graphiti_anthropic_failures [of "''anthropic''" "''sk-hint''" bare_config initial_proc "''sk-ant''"]
  by (simp add: bare_config_def initial_proc_def)

text \<open>
  C10. A provider string that is neither \<open>openai\<close> nor \<open>anthropic\<close> gets the OpenAI
  language-model client with the LLM key, but its embedding credential is resolved as
  for \<open>anthropic\<close>: the hint, then the server key, then the ValueError. So with only an
  LLM key and no server key the call fails, where the same key under \<open>openai\<close> succeeds.
\<close>

theorem make_graphiti_unrecognized_provider:
  assumes "llm_provider \<noteq> ''openai''" and "llm_provider \<noteq> ''anthropic''"
  shows "(embedder_key \<noteq> [] \<or> EMBEDDER_API_KEY cfg \<noteq> [] \<longrightarrow>
           (\<exists>g. fst (make_graphiti cfg s llm_provider llm_api_key embedder_key) = Inr g \<and>
                llm_client g = OpenAIClient \<lparr>api_key = llm_api_key, model = Some ''gpt-4.1-mini'',
                                 small_model = Some ''gpt-4.1-nano'', temperature = Some 0\<rparr> \<and>
                embedding_credential g =
                  (if embedder_key \<noteq> [] then embedder_key else EMBEDDER_API_KEY cfg) \<and>
                reranking_credential g = embedding_credential g))
       \<and> (embedder_key = [] \<and> EMBEDDER_API_KEY cfg = [] \<longrightarrow>
           fst (make_graphiti cfg s llm_provider llm_api_key embedder_key) =
             Inl (ValueError missing_embedder_key_message))
       \<and> (anthropic_installed cfg \<longrightarrow>
           map_sum id embedding_credential
               (fst (make_graphiti cfg s llm_provider llm_api_key embedder_key)) =
           map_sum id embedding_credential
               (fst (make_graphiti cfg s ''anthropic'' llm_api_key embedder_key)))
       \<and> (embedder_key = [] \<and> EMBEDDER_API_KEY cfg = [] \<and> llm_api_key \<noteq> [] \<longrightarrow>
           (\<exists>g. fst (make_graphiti cfg s ''openai'' llm_api_key embedder_key) = Inr g \<and>
                embedding_credential g = llm_api_key))"
proof (intro conjI impI)
  have same: "effective_embedder_key cfg llm_provider llm_api_key embedder_key =
      effective_embedder_key cfg ''anthropic'' llm_api_key embedder_key"
    using assms by (simp add: effective_embedder_key_def)
  {
    assume h: "embedder_key \<noteq> [] \<or> EMBEDDER_API_KEY cfg \<noteq> []"
    then have "effective_embedder_key cfg llm_provider llm_api_key embedder_key \<noteq> []"
      using assms by (auto simp: effective_embedder_key_def)
    from make_graphiti_succeeds [OF this, of s] assms h
    show "\<exists>g. fst (make_graphiti cfg s llm_provider llm_api_key embedder_key) = Inr g \<and>
                llm_client g = OpenAIClient \<lparr>api_key = llm_api_key, model = Some ''gpt-4.1-mini'',
                                 small_model = Some ''gpt-4.1-nano'', temperature = Some 0\<rparr> \<and>
                embedding_credential g =
                  (if embedder_key \<noteq> [] then embedder_key else EMBEDDER_API_KEY cfg) \<and>
                reranking_credential g = embedding_credential g"
      by (auto simp: effective_embedder_key_def)
  }
  {
    assume "embedder_key = [] \<and> EMBEDDER_API_KEY cfg = []"
    then show "fst (make_graphiti cfg s llm_provider llm_api_key embedder_key) =
             Inl (ValueError missing_embedder_key_message)"
      using assms by (simp add: make_graphiti_fails effective_embedder_key_def)
  }
  {
    assume inst: "anthropic_installed cfg"
    show "map_sum id embedding_credential
               (fst (make_graphiti cfg s llm_provider llm_api_key embedder_key)) =
           map_sum id embedding_credential
               (fst (make_graphiti cfg s ''anthropic'' llm_api_key embedder_key))"
    proof (cases "effective_embedder_key cfg ''anthropic'' llm_api_key embedder_key = []")
      case True
      then show ?thesis using same by (simp add: make_graphiti_fails)
    next
      case False
      from make_graphiti_succeeds [of cfg llm_provider llm_api_key embedder_key s]
           make_graphiti_succeeds [of cfg "''anthropic''" llm_api_key embedder_key s]
           False same inst assms
      show ?thesis by auto
    qed
  }
  {
    assume "embedder_key = [] \<and> EMBEDDER_API_KEY cfg = [] \<and> llm_api_key \<noteq> []"
    then show "\<exists>g. fst (make_graphiti cfg s ''openai'' llm_api_key embedder_key) = Inr g \<and>
                embedding_credential g = llm_api_key"
      using make_graphiti_succeeds [of cfg "''openai''" llm_api_key embedder_key s]
      by (auto simp: effective_embedder_key_def)
  }
qed

theorem make_graphiti_unrecognized_provider_witness:
  "(\<exists>g. fst (make_graphiti bare_config initial_proc ''OpenAI'' ''sk-llm'' ''sk-hint'') = Inr g \<and>
        llm_client g = OpenAIClient \<lparr>api_key = ''sk-llm'', model = Some ''gpt-4.1-mini'',
                         small_model = Some ''gpt-4.1-nano'', temperature = Some 0\<rparr> \<and>
        embedding_credential g = ''sk-hint'' \<and>
        reranking_credential g = embedding_credential g)
   \<and> fst (make_graphiti bare_config initial_proc ''OpenAI'' ''sk-llm'' []) =
        Inl (ValueError missing_embedder_key_message)
   \<and> (\<exists>g. fst (make_graphiti bare_config initial_proc ''openai'' ''sk-llm'' []) = Inr g \<and>
        embedding_credential g = ''sk-llm'')
   \<and> map_sum id embedding_credential
        (fst (make_graphiti example_config initial_proc ''OpenAI'' ''sk-llm'' [])) =
      map_sum id embedding_credential
        (fst (make_graphiti example_config initial_proc ''anthropic'' ''sk-llm'' []))"
  using make_graphiti_unrecognized_provider [of "''OpenAI''" "''sk-hint''" bare_config initial_proc "''sk-llm''"]
        make_graphiti_unrecognized_provider [of "''OpenAI''" "[]" bare_config initial_proc "''sk-llm''"]
        make_graphiti_unrecognized_provider [of "''OpenAI''" "[]" example_config initial_proc "''sk-llm''"]
  by (simp add: bare_config_def example_config_def)

section \<open>Properties of the graph materializer\<close>

text \<open>
  What the loop of lines 248-250 leaves in \<open>degree_map\<close>: for every id, one count per
  edge that has it as source and one per edge that has it as target.
\<close>

lemma count_degrees_get:
  "dict_get (count_degrees edges m) u 0 =
     dict_get m u 0 + int (length (filter (\<lambda>e. source_node_uuid e = u) edges))
                    + int (length (filter (\<lambda>e. target_node_uuid e = u) edges))"
proof (induction edges arbitrary: m)
  case Nil
  then show ?case by simp
next
  case (Cons edge edges)
  show ?case
    unfolding count_degrees.simps Let_def Cons.IH
    by (auto simp: dict_get_def)
qed

lemma endpoint_counts:
  "int (length (filter (\<lambda>e. source_node_uuid e = u) edges))
     + int (length (filter (\<lambda>e. target_node_uuid e = u) edges)) =
   incident_count u edges + self_loop_count u edges"
  by (induction edges) (auto simp: incident_count_def self_loop_count_def incident_def self_loop_def)

lemma degree_of_node:
  "dict_get (count_degrees edges Map.empty) u 0 = incident_count u edges + self_loop_count u edges"
  using count_degrees_get [of edges Map.empty u] endpoint_counts [of u edges]
  by (simp add: dict_get_def)

text \<open>The two ways \<open>build_graph_response\<close> ends.\<close>

lemma build_graph_response_unreachable:
  "clone db drv session_id = Inl e \<Longrightarrow> build_graph_response db now drv session_id s = (Inl e, s)"
  by (simp add: build_graph_response_def)

lemma build_graph_response_reachable:
  assumes "clone db drv session_id = Inr sd"
  shows "build_graph_response db now drv session_id s =
    (let nodes = or_empty (get_nodes_by_group_ids db sd [session_id]);
         edges = or_empty (get_edges_by_group_ids db sd [session_id])
     in (Inr \<lparr>entities = map (make_entity (count_degrees edges Map.empty)) nodes,
               relationships = map make_relationship edges,
               metadata = \<lparr>meta_session_id = session_id,
                           entity_count = int (length nodes),
                           relationship_count = int (length edges),
                           last_updated = isoformat now\<rparr>\<rparr>,
         s\<lparr>logged := logged s
              @ (case get_nodes_by_group_ids db sd [session_id] of
                   Inl e \<Rightarrow> [(WARNING, ''Failed to get nodes for '' @ session_id @ '': '' @ e)]
                 | Inr ns \<Rightarrow> [])
              @ (case get_edges_by_group_ids db sd [session_id] of
                   Inl e \<Rightarrow> [(WARNING, ''Failed to get edges for '' @ session_id @ '': '' @ e)]
                 | Inr es \<Rightarrow> [])\<rparr>))"
  using assms
  by (simp add: build_graph_response_def or_empty_def logger_def Let_def split: sum.splits)

lemma first_specific_label_descriptive:
  "first_specific_label labels t =
     (case descriptive_labels labels of [] \<Rightarrow> t | label # rest \<Rightarrow> lower label)"
  by (induction labels) (auto simp: descriptive_labels_def)

lemma lower_examples: "lower ''Entity'' = ''entity''" "lower ''Person'' = ''person''"
  by code_simp+

text \<open>
  C2, as the code has it. Every returned entity carries the id of its node, and its
  degree is the number of fetched edges in which that id is the source or the target,
  plus the number of fetched edges in which it is both: an edge from a node to itself
  counts twice. The count is taken from the edges fetched in this very call, whatever
  the state of the process is.
\<close>

theorem build_graph_response_degree:
  assumes "clone db drv session_id = Inr sd"
  shows "\<exists>r. fst (build_graph_response db now drv session_id s) = Inr r \<and>
           map ent_id (entities r) =
             map node_uuid (or_empty (get_nodes_by_group_ids db sd [session_id])) \<and>
           map ent_degree (entities r) =
             map (\<lambda>node.
                    incident_count (node_uuid node)
                      (or_empty (get_edges_by_group_ids db sd [session_id])) +
                    self_loop_count (node_uuid node)
                      (or_empty (get_edges_by_group_ids db sd [session_id])))
                 (or_empty (get_nodes_by_group_ids db sd [session_id]))"
  by (simp add: build_graph_response_reachable [OF assms] Let_def make_entity_def
        degree_of_node comp_def)

theorem build_graph_response_degree_witness:
  "\<exists>r. fst (build_graph_response (store_of (Inr [node_a, node_b]) (Inr [edge_ab, edge_aa]))
               example_now example_driver ''s1'' initial_proc) = Inr r \<and>
       map ent_id (entities r) = [''a'', ''b''] \<and>
       map ent_degree (entities r) = [3, 1]"
  using build_graph_response_degree
          [of "store_of (Inr [node_a, node_b]) (Inr [edge_ab, edge_aa])" example_driver "''s1''"
              example_driver example_now initial_proc]
  by (simp add: store_of_def or_empty_def node_a_def node_b_def edge_ab_def edge_aa_def
        incident_count_def self_loop_count_def incident_def self_loop_def)

text \<open>
  C2 as stated fails on an edge from a node to itself: with the single edge a-a the
  node a has degree 2, and one edge in which it is source or target.
\<close>

theorem degree_self_loop_counterexample:
  "\<exists>r. fst (build_graph_response (store_of (Inr [node_a]) (Inr [edge_aa]))
               example_now example_driver ''s1'' initial_proc) = Inr r \<and>
       map ent_id (entities r) = [''a''] \<and>
       map ent_degree (entities r) = [2] \<and>
       incident_count ''a'' [edge_aa] = 1"
  by (simp add: build_graph_response_def store_of_def node_a_def edge_aa_def make_entity_def
        dict_get_def incident_count_def incident_def Let_def)

text \<open>
  C4, as the code has it. The type of a node is \<open>topic\<close> when none of its labels is
  descriptive (each one lower-cases to \<open>entity\<close>, \<open>node\<close> or \<open>entitynode\<close>, or there is no
  label); otherwise it is the first descriptive label, lower-cased. Labels Entity and
  Person give \<open>person\<close>; the label Entity alone gives \<open>topic\<close>.
\<close>

theorem infer_node_type_rule:
  "infer_node_type node =
     (case descriptive_labels (node_labels node) of
        [] \<Rightarrow> ''topic''
      | label # rest \<Rightarrow> lower label)
   \<and> infer_node_type (node\<lparr>node_labels := [''Entity'', ''Person'']\<rparr>) = ''person''
   \<and> infer_node_type (node\<lparr>node_labels := [''Entity'']\<rparr>) = ''topic''
   \<and> (clone db drv session_id = Inr sd \<longrightarrow>
        (\<exists>r. fst (build_graph_response db now drv session_id s) = Inr r \<and>
             map ent_type (entities r) =
               map infer_node_type (or_empty (get_nodes_by_group_ids db sd [session_id]))))"
proof (intro conjI impI)
  show "infer_node_type node =
     (case descriptive_labels (node_labels node) of
        [] \<Rightarrow> ''topic''
      | label # rest \<Rightarrow> lower label)"
    by (simp add: infer_node_type_def first_specific_label_descriptive descriptive_labels_def)
  show "infer_node_type (node\<lparr>node_labels := [''Entity'', ''Person'']\<rparr>) = ''person''"
    by (simp add: infer_node_type_def generic_labels_def lower_examples)
  show "infer_node_type (node\<lparr>node_labels := [''Entity'']\<rparr>) = ''topic''"
    by (simp add: infer_node_type_def generic_labels_def lower_examples)
  assume "clone db drv session_id = Inr sd"
  then show "\<exists>r. fst (build_graph_response db now drv session_id s) = Inr r \<and>
             map ent_type (entities r) =
               map infer_node_type (or_empty (get_nodes_by_group_ids db sd [session_id]))"
    by (simp add: build_graph_response_reachable Let_def make_entity_def comp_def)
qed

theorem infer_node_type_rule_witness:
  "infer_node_type node_a = ''person'' \<and> infer_node_type node_b = ''topic''
   \<and> (\<exists>r. fst (build_graph_response (store_of (Inr [node_a, node_b]) (Inr [edge_ab]))
                 example_now example_driver ''s1'' initial_proc) = Inr r \<and>
          map ent_type (entities r) = [''person'', ''topic''])"
proof -
  note rule_a = infer_node_type_rule
      [of node_a "store_of (Inr [node_a, node_b]) (Inr [edge_ab])" example_driver "''s1''"
          example_driver example_now initial_proc]
  note rule_b = infer_node_type_rule
      [of node_b "store_of (Inr [node_a, node_b]) (Inr [edge_ab])" example_driver "''s1''"
          example_driver example_now initial_proc]
  have a: "infer_node_type node_a = ''person''"
    using rule_a
    by (simp add: node_a_def descriptive_labels_def generic_labels_def lower_examples)
  have b: "infer_node_type node_b = ''topic''"
    using rule_b
    by (simp add: node_b_def descriptive_labels_def generic_labels_def lower_examples)
  have reachable:
    "clone (store_of (Inr [node_a, node_b]) (Inr [edge_ab])) example_driver ''s1'' =
       Inr example_driver"
    by (simp add: store_of_def)
  have "\<exists>r. fst (build_graph_response (store_of (Inr [node_a, node_b]) (Inr [edge_ab]))
                 example_now example_driver ''s1'' initial_proc) = Inr r \<and>
          map ent_type (entities r) = [infer_node_type node_a, infer_node_type node_b]"
    using rule_a [THEN conjunct2, THEN conjunct2, THEN conjunct2, rule_format, OF reachable]
    by (simp add: store_of_def or_empty_def)
  with a b show ?thesis by simp
qed

text \<open>
  C4 as stated fails for a node with exactly one descriptive label: \<open>node_a\<close> carries
  Entity and Person, one descriptive label, and is typed \<open>person\<close>, not \<open>topic\<close>.
\<close>

theorem one_descriptive_label_counterexample:
  "length (descriptive_labels (node_labels node_a)) = 1
   \<and> infer_node_type node_a = ''person''
   \<and> infer_node_type node_a \<noteq> ''topic''"
  by (simp add: descriptive_labels_def infer_node_type_def node_a_def generic_labels_def
        lower_examples)

text \<open>
  C5. The exception of \<open>driver.clone\<close> leaves the function, and nothing else does: the
  result is an exception exactly when \<open>clone\<close> raised one. With a session driver, a
  fetch that raises is replaced by the empty list and one WARNING is logged for it,
  while the other fetch is used as it is. When both fetches give nothing, the response
  has no entities, no relationships and both counts are 0.
\<close>

theorem build_graph_response_degrades:
  "(\<forall>e. clone db drv session_id = Inl e \<longrightarrow>
        build_graph_response db now drv session_id s = (Inl e, s))
   \<and> (\<forall>sd. clone db drv session_id = Inr sd \<longrightarrow>
        (\<exists>r. fst (build_graph_response db now drv session_id s) = Inr r \<and>
             entities r =
               map (make_entity
                      (count_degrees (or_empty (get_edges_by_group_ids db sd [session_id]))
                         Map.empty))
                   (or_empty (get_nodes_by_group_ids db sd [session_id])) \<and>
             relationships r =
               map make_relationship (or_empty (get_edges_by_group_ids db sd [session_id])) \<and>
             entity_count (metadata r) = int (length (entities r)) \<and>
             relationship_count (metadata r) = int (length (relationships r)) \<and>
             logged (snd (build_graph_response db now drv session_id s)) =
               logged s
               @ (case get_nodes_by_group_ids db sd [session_id] of
                    Inl e \<Rightarrow> [(WARNING, ''Failed to get nodes for '' @ session_id @ '': '' @ e)]
                  | Inr ns \<Rightarrow> [])
               @ (case get_edges_by_group_ids db sd [session_id] of
                    Inl e \<Rightarrow> [(WARNING, ''Failed to get edges for '' @ session_id @ '': '' @ e)]
                  | Inr es \<Rightarrow> [])))
   \<and> ((\<exists>e. fst (build_graph_response db now drv session_id s) = Inl e) \<longleftrightarrow>
        (\<exists>e. clone db drv session_id = Inl e))
   \<and> (\<forall>sd. clone db drv session_id = Inr sd \<and>
          or_empty (get_nodes_by_group_ids db sd [session_id]) = [] \<and>
          or_empty (get_edges_by_group_ids db sd [session_id]) = [] \<longrightarrow>
        (\<exists>r. fst (build_graph_response db now drv session_id s) = Inr r \<and>
             entities r = [] \<and> relationships r = [] \<and>
             entity_count (metadata r) = 0 \<and> relationship_count (metadata r) = 0))"
proof (intro conjI allI impI)
  fix e
  assume "clone db drv session_id = Inl e"
  then show "build_graph_response db now drv session_id s = (Inl e, s)"
    by (rule build_graph_response_unreachable)
next
  fix sd
  assume "clone db drv session_id = Inr sd"
  then show "\<exists>r. fst (build_graph_response db now drv session_id s) = Inr r \<and>
             entities r =
               map (make_entity
                      (count_degrees (or_empty (get_edges_by_group_ids db sd [session_id]))
                         Map.empty))
                   (or_empty (get_nodes_by_group_ids db sd [session_id])) \<and>
             relationships r =
               map make_relationship (or_empty (get_edges_by_group_ids db sd [session_id])) \<and>
             entity_count (metadata r) = int (length (entities r)) \<and>
             relationship_count (metadata r) = int (length (relationships r)) \<and>
             logged (snd (build_graph_response db now drv session_id s)) =
               logged s
               @ (case get_nodes_by_group_ids db sd [session_id] of
                    Inl e \<Rightarrow> [(WARNING, ''Failed to get nodes for '' @ session_id @ '': '' @ e)]
                  | Inr ns \<Rightarrow> [])
               @ (case get_edges_by_group_ids db sd [session_id] of
                    Inl e \<Rightarrow> [(WARNING, ''Failed to get edges for '' @ session_id @ '': '' @ e)]
                  | Inr es \<Rightarrow> [])"
    by (simp add: build_graph_response_reachable Let_def)
next
  show "(\<exists>e. fst (build_graph_response db now drv session_id s) = Inl e) \<longleftrightarrow>
        (\<exists>e. clone db drv session_id = Inl e)"
  proof (cases "clone db drv session_id")
    case (Inl e)
    then show ?thesis by (simp add: build_graph_response_unreachable)
  next
    case (Inr sd)
    then show ?thesis by (simp add: build_graph_response_reachable Let_def)
  qed
next
  fix sd
  assume "clone db drv session_id = Inr sd \<and>
          or_empty (get_nodes_by_group_ids db sd [session_id]) = [] \<and>
          or_empty (get_edges_by_group_ids db sd [session_id]) = []"
  then show "\<exists>r. fst (build_graph_response db now drv session_id s) = Inr r \<and>
             entities r = [] \<and> relationships r = [] \<and>
             entity_count (metadata r) = 0 \<and> relationship_count (metadata r) = 0"
    by (simp add: build_graph_response_reachable Let_def)
qed

theorem build_graph_response_degrades_witness:
  "build_graph_response unreachable_store example_now example_driver ''s1'' initial_proc =
     (Inl ''connection refused'', initial_proc)
   \<and> (\<exists>r. fst (build_graph_response (store_of (Inl ''boom'') (Inr [edge_ab]))
                 example_now example_driver ''s1'' initial_proc) = Inr r \<and>
          entities r = [] \<and> relationships r = [make_relationship edge_ab] \<and>
          entity_count (metadata r) = 0 \<and> relationship_count (metadata r) = 1 \<and>
          logged (snd (build_graph_response (store_of (Inl ''boom'') (Inr [edge_ab]))
                 example_now example_driver ''s1'' initial_proc)) =
            [(WARNING, ''Failed to get nodes for s1: boom'')])
   \<and> (\<exists>r. fst (build_graph_response (store_of (Inr [node_a]) (Inl ''boom''))
                 example_now example_driver ''s1'' initial_proc) = Inr r \<and>
          entities r = [make_entity Map.empty node_a] \<and> relationships r = [] \<and>
          logged (snd (build_graph_response (store_of (Inr [node_a]) (Inl ''boom''))
                 example_now example_driver ''s1'' initial_proc)) =
            [(WARNING, ''Failed to get edges for s1: boom'')])
   \<and> (\<exists>r. fst (build_graph_response (store_of (Inr []) (Inr []))
                 example_now example_driver ''s1'' initial_proc) = Inr r \<and>
          entities r = [] \<and> relationships r = [] \<and>
          entity_count (metadata r) = 0 \<and> relationship_count (metadata r) = 0)"
  using build_graph_response_degrades
          [of unreachable_store example_driver "''s1''" example_now initial_proc]
        build_graph_response_degrades
          [of "store_of (Inl ''boom'') (Inr [edge_ab])" example_driver "''s1''" example_now
              initial_proc]
        build_graph_response_degrades
          [of "store_of (Inr [node_a]) (Inl ''boom'')" example_driver "''s1''" example_now
              initial_proc]
        build_graph_response_degrades
          [of "store_of (Inr []) (Inr [])" example_driver "''s1''" example_now initial_proc]
  by (auto simp: unreachable_store_def store_of_def or_empty_def initial_proc_def)

text \<open>
  C9. The type of a relationship is the name of the edge when it has a non-empty one,
  and \<open>related_to\<close> otherwise. A node without creation time gets the empty string; an
  edge without \<open>valid_at\<close> or \<open>invalid_at\<close> gets \<open>None\<close>; a time that is present is
  written with \<open>isoformat()\<close>.
\<close>

theorem build_graph_response_types_and_timestamps:
  assumes "clone db drv session_id = Inr sd"
  shows "\<exists>r. fst (build_graph_response db now drv session_id s) = Inr r \<and>
           map rel_type (relationships r) =
             map (\<lambda>edge. case edge_name edge of
                            None \<Rightarrow> ''related_to''
                          | Some n \<Rightarrow> if n \<noteq> [] then n else ''related_to'')
                 (or_empty (get_edges_by_group_ids db sd [session_id])) \<and>
           map rel_valid_at (relationships r) =
             map (\<lambda>edge. case valid_at edge of None \<Rightarrow> None | Some t \<Rightarrow> Some (isoformat t))
                 (or_empty (get_edges_by_group_ids db sd [session_id])) \<and>
           map rel_invalid_at (relationships r) =
             map (\<lambda>edge. case invalid_at edge of None \<Rightarrow> None | Some t \<Rightarrow> Some (isoformat t))
                 (or_empty (get_edges_by_group_ids db sd [session_id])) \<and>
           map ent_created_at (entities r) =
             map (\<lambda>node. case node_created_at node of None \<Rightarrow> [] | Some t \<Rightarrow> isoformat t)
                 (or_empty (get_nodes_by_group_ids db sd [session_id]))"
  by (simp add: build_graph_response_reachable [OF assms] Let_def make_entity_def
        make_relationship_def comp_def)

theorem build_graph_response_types_and_timestamps_witness:
  "\<exists>r. fst (build_graph_response (store_of (Inr [node_a, node_b]) (Inr [edge_ab, edge_aa]))
               example_now example_driver ''s1'' initial_proc) = Inr r \<and>
       map rel_type (relationships r) = [''LIVES_IN'', ''related_to''] \<and>
       map rel_valid_at (relationships r) = [Some ''2024-01-01T00:00:00+00:00'', None] \<and>
       map rel_invalid_at (relationships r) = [None, None] \<and>
       map ent_created_at (entities r) = [''2024-01-01T00:00:00+00:00'', []]"
  using build_graph_response_types_and_timestamps
          [of "store_of (Inr [node_a, node_b]) (Inr [edge_ab, edge_aa])" example_driver "''s1''"
              example_driver example_now initial_proc]
  by (simp add: store_of_def or_empty_def node_a_def node_b_def edge_ab_def edge_aa_def)

section \<open>Properties of the index lifecycle\<close>

lemma ensure_indices_built: "indices_built s \<Longrightarrow> ensure_indices eng g s = s"
  by (simp add: ensure_indices_def)

lemma ensure_indices_success:
  "\<not> indices_built s \<Longrightarrow> build_indices_and_constraints eng g = None \<Longrightarrow>
     ensure_indices eng g s =
       s\<lparr>indices_built := True, build_calls := Suc (build_calls s),
         logged := logged s @ [(INFO, ''Graphiti indices built successfully'')]\<rparr>"
  by (simp add: ensure_indices_def logger_def Let_def)

lemma ensure_indices_failure:
  "\<not> indices_built s \<Longrightarrow> build_indices_and_constraints eng g = Some e \<Longrightarrow>
     ensure_indices eng g s =
       s\<lparr>build_calls := Suc (build_calls s),
         logged := logged s @ [(WARNING, ''Failed to build indices: '' @ e)]\<rparr>"
  by (simp add: ensure_indices_def logger_def Let_def)

lemma ensure_indices_all_built:
  "indices_built s \<Longrightarrow> foldl (\<lambda>s (eng, g). ensure_indices eng g s) s calls = s"
  by (induction calls arbitrary: s) (auto simp: ensure_indices_built)

lemma ensure_indices_all_calls:
  "list_all (\<lambda>(eng, g). build_indices_and_constraints eng g = None) calls \<Longrightarrow>
     build_calls (foldl (\<lambda>s (eng, g). ensure_indices eng g s) s calls) =
       build_calls s + (if indices_built s \<or> calls = [] then 0 else 1)"
proof (cases calls)
  case Nil
  then show ?thesis by simp
next
  case (Cons c cs)
  assume ok: "list_all (\<lambda>(eng, g). build_indices_and_constraints eng g = None) calls"
  obtain eng g where c: "c = (eng, g)" by (cases c)
  show ?thesis
  proof (cases "indices_built s")
    case True
    then show ?thesis by (simp add: ensure_indices_all_built)
  next
    case False
    with ok Cons c have "indices_built (ensure_indices eng g s)"
      and "build_calls (ensure_indices eng g s) = Suc (build_calls s)"
      by (simp_all add: ensure_indices_success)
    with Cons c False show ?thesis
      by (simp add: ensure_indices_all_built)
  qed
qed

text \<open>No other function of the module writes \<open>indices_built\<close>.\<close>

lemma get_driver_flag: "indices_built (snd (get_driver cfg s)) = indices_built s"
  by (simp add: get_driver_def Let_def split: option.splits)

lemma make_graphiti_flag: "indices_built (snd (make_graphiti cfg s p k h)) = indices_built s"
  by (auto simp: make_graphiti_def make_llm_client_def construct_def get_driver_def Let_def
        split: option.splits prod.splits if_splits)

lemma build_graph_response_flag:
  "indices_built (snd (build_graph_response db now drv sid s)) = indices_built s"
  by (auto simp: build_graph_response_def logger_def Let_def split: sum.splits prod.splits)

lemma search_flag: "indices_built (snd (search cfg eng req s)) = indices_built s"
  using make_graphiti_flag [of cfg s "req_llm_provider req" "req_llm_api_key req" "req_openai_api_key req"]
  by (auto simp: search_def logger_def split: sum.splits prod.splits error.splits)

lemma lifespan_startup_flag:
  "indices_built s \<Longrightarrow> indices_built (lifespan_startup cfg eng s)"
  by (auto simp: lifespan_startup_def ensure_indices_built construct_def get_driver_def
        logger_def Let_def split: option.splits prod.splits)

lemma run_call_flag: "indices_built s \<Longrightarrow> indices_built (run_call cfg c s)"
  by (cases c)
     (simp_all add: get_driver_flag make_graphiti_flag build_graph_response_flag search_flag
        ensure_indices_built lifespan_startup_flag lifespan_shutdown_def)

lemma run_calls_flag:
  "indices_built s \<Longrightarrow> indices_built (foldl (\<lambda>s c. run_call cfg c s) s calls)"
  by (induction calls arbitrary: s) (simp_all add: run_call_flag)

text \<open>
  C3. \<open>ensure_indices\<close> changes nothing when the flag is set. With the flag unset it
  awaits the build once: when the build returns, the flag is set and an INFO line is
  logged; when the build raises, the flag stays unset, a WARNING with the message is
  logged, and the caller gets the state back, not the exception. No sequence of calls of
  the module's functions unsets a set flag. Over calls of \<open>ensure_indices\<close> made one
  after another whose builds all succeed, the build is awaited once when the flag was
  unset at the start, and never when it was set.
\<close>

theorem ensure_indices_lifecycle:
  "(indices_built s \<longrightarrow> ensure_indices eng g s = s)
   \<and> (\<not> indices_built s \<and> build_indices_and_constraints eng g = None \<longrightarrow>
        ensure_indices eng g s =
          s\<lparr>indices_built := True, build_calls := Suc (build_calls s),
            logged := logged s @ [(INFO, ''Graphiti indices built successfully'')]\<rparr>)
   \<and> (\<forall>e. \<not> indices_built s \<and> build_indices_and_constraints eng g = Some e \<longrightarrow>
        ensure_indices eng g s =
          s\<lparr>build_calls := Suc (build_calls s),
            logged := logged s @ [(WARNING, ''Failed to build indices: '' @ e)]\<rparr>
        \<and> \<not> indices_built (ensure_indices eng g s))
   \<and> (indices_built s \<longrightarrow> indices_built (foldl (\<lambda>s c. run_call cfg c s) s calls))
   \<and> (list_all (\<lambda>(eng, g). build_indices_and_constraints eng g = None) ensures \<longrightarrow>
        build_calls (foldl (\<lambda>s (eng, g). ensure_indices eng g s) s ensures) =
          build_calls s + (if indices_built s \<or> ensures = [] then 0 else 1))"
  by (intro conjI impI allI)
     (simp_all add: ensure_indices_built ensure_indices_success ensure_indices_failure
        run_calls_flag ensure_indices_all_calls)

theorem ensure_indices_lifecycle_witness:
  "ensure_indices (engine_of None (Inr [])) example_graphiti (initial_proc\<lparr>indices_built := True\<rparr>) =
     initial_proc\<lparr>indices_built := True\<rparr>
   \<and> ensure_indices (engine_of None (Inr [])) example_graphiti initial_proc =
       initial_proc\<lparr>indices_built := True, build_calls := 1,
         logged := [(INFO, ''Graphiti indices built successfully'')]\<rparr>
   \<and> ensure_indices (engine_of (Some ''timeout'') (Inr [])) example_graphiti initial_proc =
       initial_proc\<lparr>build_calls := 1,
         logged := [(WARNING, ''Failed to build indices: timeout'')]\<rparr>
   \<and> \<not> indices_built
         (ensure_indices (engine_of (Some ''timeout'') (Inr [])) example_graphiti initial_proc)
   \<and> indices_built
         (foldl (\<lambda>s c. run_call example_config c s) (initial_proc\<lparr>indices_built := True\<rparr>)
            [Call_lifespan_shutdown, Call_make_graphiti ''openai'' ''sk-llm'' [],
             Call_ensure_indices (engine_of (Some ''timeout'') (Inr [])) example_graphiti])
   \<and> build_calls
         (foldl (\<lambda>s (eng, g). ensure_indices eng g s) initial_proc
            [(engine_of None (Inr []), example_graphiti),
             (engine_of None (Inr []), example_graphiti),
             (engine_of None (Inr []), example_graphiti)]) = 1"
proof -
  have built:
    "ensure_indices (engine_of None (Inr [])) example_graphiti (initial_proc\<lparr>indices_built := True\<rparr>) =
       initial_proc\<lparr>indices_built := True\<rparr>
     \<and> indices_built
         (foldl (\<lambda>s c. run_call example_config c s) (initial_proc\<lparr>indices_built := True\<rparr>)
            [Call_lifespan_shutdown, Call_make_graphiti ''openai'' ''sk-llm'' [],
             Call_ensure_indices (engine_of (Some ''timeout'') (Inr [])) example_graphiti])"
    using ensure_indices_lifecycle
          [of "initial_proc\<lparr>indices_built := True\<rparr>" "engine_of None (Inr [])" example_graphiti
              example_config
              "[Call_lifespan_shutdown, Call_make_graphiti ''openai'' ''sk-llm'' [],
                Call_ensure_indices (engine_of (Some ''timeout'') (Inr [])) example_graphiti]"
              "[]"]
    by simp
  have success:
    "ensure_indices (engine_of None (Inr [])) example_graphiti initial_proc =
       initial_proc\<lparr>indices_built := True, build_calls := 1,
         logged := [(INFO, ''Graphiti indices built successfully'')]\<rparr>
     \<and> build_calls
         (foldl (\<lambda>s (eng, g). ensure_indices eng g s) initial_proc
            [(engine_of None (Inr []), example_graphiti),
             (engine_of None (Inr []), example_graphiti),
             (engine_of None (Inr []), example_graphiti)]) = 1"
    using ensure_indices_lifecycle
          [of initial_proc "engine_of None (Inr [])" example_graphiti example_config "[]"
              "[(engine_of None (Inr []), example_graphiti),
                (engine_of None (Inr []), example_graphiti),
                (engine_of None (Inr []), example_graphiti)]"]
    by (simp add: initial_proc_def engine_of_def del: foldl.simps)
  have failure:
    "ensure_indices (engine_of (Some ''timeout'') (Inr [])) example_graphiti initial_proc =
       initial_proc\<lparr>build_calls := 1,
         logged := [(WARNING, ''Failed to build indices: timeout'')]\<rparr>
     \<and> \<not> indices_built
         (ensure_indices (engine_of (Some ''timeout'') (Inr [])) example_graphiti initial_proc)"
    using ensure_indices_lifecycle
          [of initial_proc "engine_of (Some ''timeout'') (Inr [])" example_graphiti
              example_config "[]" "[]"]
    by (simp add: initial_proc_def engine_of_def)
  from built success failure show ?thesis by blast
qed

section \<open>Properties of the reference time\<close>

lemma replace_char_Cons:
  "replace (c # cs) [z] new = (if c = z then new @ replace cs [z] new else c # replace cs [z] new)"
  by (subst replace.simps) simp

lemma replace_Nil: "replace [] old new = []"
  by (subst replace.simps) simp

lemma replace_char_append:
  "replace (xs @ ys) [z] new = replace xs [z] new @ replace ys [z] new"
  by (induction xs) (simp_all add: replace_char_Cons replace_Nil)

lemma replace_Z_suffix:
  "replace (ts @ ''Z'') ''Z'' ''+00:00'' = replace (ts @ ''+00:00'') ''Z'' ''+00:00''"
  by (simp add: replace_char_append replace_char_Cons replace_Nil)

text \<open>
  C7. Without a timestamp (absent or empty) the reference time is the current time. A
  timestamp that ends in Z gives the same reference time as the same text ending in
  +00:00, whatever the parser is. When the parser rejects the text, the reference time
  is the current time: a value, not an error, and nothing is logged. When the parser
  accepts it, the reference time is what it parsed.
\<close>

theorem ingest_ref_time_rules:
  "ingest_ref_time fromisoformat now None = now
   \<and> ingest_ref_time fromisoformat now (Some []) = now
   \<and> ingest_ref_time fromisoformat now (Some (ts @ ''Z'')) =
       ingest_ref_time fromisoformat now (Some (ts @ ''+00:00''))
   \<and> (fromisoformat (replace ts ''Z'' ''+00:00'') = None \<longrightarrow>
        ingest_ref_time fromisoformat now (Some ts) = now)
   \<and> (\<forall>t. ts \<noteq> [] \<and> fromisoformat (replace ts ''Z'' ''+00:00'') = Some t \<longrightarrow>
        ingest_ref_time fromisoformat now (Some ts) = t)"
  by (simp add: ingest_ref_time_def replace_Z_suffix)

theorem ingest_ref_time_rules_witness:
  "ingest_ref_time example_fromisoformat example_now (Some ''2024-01-01T00:00:00Z'') =
     Datetime ''2024-01-01T00:00:00+00:00''
   \<and> ingest_ref_time example_fromisoformat example_now (Some ''2024-01-01T00:00:00+00:00'') =
     Datetime ''2024-01-01T00:00:00+00:00''
   \<and> ingest_ref_time example_fromisoformat example_now (Some ''yesterday'') = example_now"
proof -
  have z: "replace ''2024-01-01T00:00:00Z'' ''Z'' ''+00:00'' = ''2024-01-01T00:00:00+00:00''"
    by (simp add: replace_char_Cons replace_Nil)
  have p: "replace ''2024-01-01T00:00:00+00:00'' ''Z'' ''+00:00'' = ''2024-01-01T00:00:00+00:00''"
    by (simp add: replace_char_Cons replace_Nil)
  have y: "replace ''yesterday'' ''Z'' ''+00:00'' = ''yesterday''"
    by (simp add: replace_char_Cons replace_Nil)
  have "ingest_ref_time example_fromisoformat example_now (Some ''2024-01-01T00:00:00Z'') =
     Datetime ''2024-01-01T00:00:00+00:00''"
    using ingest_ref_time_rules
            [of example_fromisoformat example_now "''2024-01-01T00:00:00Z''"]
    by (simp add: z example_fromisoformat_def)
  moreover have "ingest_ref_time example_fromisoformat example_now
       (Some ''2024-01-01T00:00:00+00:00'') = Datetime ''2024-01-01T00:00:00+00:00''"
    using ingest_ref_time_rules
            [of example_fromisoformat example_now "''2024-01-01T00:00:00+00:00''"]
    by (simp add: p example_fromisoformat_def)
  moreover have "ingest_ref_time example_fromisoformat example_now (Some ''yesterday'') =
       example_now"
    using ingest_ref_time_rules [of example_fromisoformat example_now "''yesterday''"]
    by (simp add: y example_fromisoformat_def)
  ultimately show ?thesis by blast
qed

section \<open>Properties of the search coordinator\<close>

lemma search_success:
  "fst (search cfg eng req s) = Inr rs \<longleftrightarrow>
     strip (req_query req) \<noteq> [] \<and> req_llm_api_key req \<noteq> [] \<and>
     (\<exists>g edges.
        fst (make_graphiti cfg s (req_llm_provider req) (req_llm_api_key req)
               (req_openai_api_key req)) = Inr g \<and>
        engine_search eng g (req_query req) [req_session_id req] 20 = Inr edges \<and>
        rs = map make_search_result edges)"
  by (cases "make_graphiti cfg s (req_llm_provider req) (req_llm_api_key req)
               (req_openai_api_key req)")
     (auto simp: search_def split: sum.splits error.splits)

lemma search_returns:
  assumes "strip (req_query req) \<noteq> []" and "req_llm_api_key req \<noteq> []"
    and "fst (make_graphiti cfg s (req_llm_provider req) (req_llm_api_key req)
               (req_openai_api_key req)) = Inr g"
    and "engine_search eng g (req_query req) [req_session_id req] 20 = Inr edges"
  shows "fst (search cfg eng req s) = Inr (map make_search_result edges)"
  using assms
  by (cases "make_graphiti cfg s (req_llm_provider req) (req_llm_api_key req)
               (req_openai_api_key req)")
     (simp add: search_def)

lemma example_make_graphiti:
  "\<exists>g. fst (make_graphiti example_config initial_proc ''openai'' ''sk-llm'' []) = Inr g"
  using make_graphiti_succeeds [of example_config "''openai''" "''sk-llm''" "[]" initial_proc]
  by (auto simp: effective_embedder_key_def)

lemma example_search:
  "fst (search example_config (engine_of None (Inr edges)) example_request initial_proc) =
     Inr (map make_search_result edges)"
proof -
  obtain g where "fst (make_graphiti example_config initial_proc ''openai'' ''sk-llm'' []) = Inr g"
    using example_make_graphiti by blast
  then show ?thesis
    by (intro search_returns [where g = g])
       (simp_all add: example_request_def engine_of_def strip_def isspace_def)
qed

text \<open>
  C8, as the code has it. \<open>search\<close> asks the engine for 20 results and returns one result
  for every edge the engine hands back, in the engine's order, each with exactly the
  three fields \<open>fact\<close> (the empty string when the edge has none), \<open>source\<close> and \<open>target\<close>.
  It does not cut the list: the answer has as many results as the engine returned,
  hence at most 20 whenever the engine returns no more than it was asked for.
\<close>

theorem search_projects_engine_edges:
  "(fst (search cfg eng req s) = Inr rs \<longleftrightarrow>
      strip (req_query req) \<noteq> [] \<and> req_llm_api_key req \<noteq> [] \<and>
      (\<exists>g edges.
         fst (make_graphiti cfg s (req_llm_provider req) (req_llm_api_key req)
                (req_openai_api_key req)) = Inr g \<and>
         engine_search eng g (req_query req) [req_session_id req] 20 = Inr edges \<and>
         rs = map (\<lambda>edge. \<lparr>fact = (case edge_fact edge of None \<Rightarrow> [] | Some t \<Rightarrow> t),
                            source = source_node_uuid edge,
                            target = target_node_uuid edge\<rparr>) edges))
   \<and> (\<forall>g edges.
        strip (req_query req) \<noteq> [] \<and> req_llm_api_key req \<noteq> [] \<and>
        fst (make_graphiti cfg s (req_llm_provider req) (req_llm_api_key req)
               (req_openai_api_key req)) = Inr g \<and>
        engine_search eng g (req_query req) [req_session_id req] 20 = Inr edges \<longrightarrow>
        (\<exists>found. fst (search cfg eng req s) = Inr found \<and> length found = length edges \<and>
                  (length edges \<le> 20 \<longrightarrow> length found \<le> 20)))"
proof (intro conjI allI impI)
  have shape: "make_search_result =
      (\<lambda>edge. \<lparr>fact = (case edge_fact edge of None \<Rightarrow> [] | Some t \<Rightarrow> t),
                source = source_node_uuid edge, target = target_node_uuid edge\<rparr>)"
    by (rule ext) (simp add: make_search_result_def)
  show "fst (search cfg eng req s) = Inr rs \<longleftrightarrow>
      strip (req_query req) \<noteq> [] \<and> req_llm_api_key req \<noteq> [] \<and>
      (\<exists>g edges.
         fst (make_graphiti cfg s (req_llm_provider req) (req_llm_api_key req)
                (req_openai_api_key req)) = Inr g \<and>
         engine_search eng g (req_query req) [req_session_id req] 20 = Inr edges \<and>
         rs = map (\<lambda>edge. \<lparr>fact = (case edge_fact edge of None \<Rightarrow> [] | Some t \<Rightarrow> t),
                            source = source_node_uuid edge,
                            target = target_node_uuid edge\<rparr>) edges)"
    unfolding shape [symmetric] by (rule search_success)
next
  fix g edges
  assume "strip (req_query req) \<noteq> [] \<and> req_llm_api_key req \<noteq> [] \<and>
        fst (make_graphiti cfg s (req_llm_provider req) (req_llm_api_key req)
               (req_openai_api_key req)) = Inr g \<and>
        engine_search eng g (req_query req) [req_session_id req] 20 = Inr edges"
  then have "fst (search cfg eng req s) = Inr (map make_search_result edges)"
    by (intro search_returns [where g = g]) simp_all
  then show "\<exists>found. fst (search cfg eng req s) = Inr found \<and> length found = length edges \<and>
                  (length edges \<le> 20 \<longrightarrow> length found \<le> 20)"
    by simp
qed

theorem search_projects_engine_edges_witness:
  "fst (search example_config (engine_of None (Inr [edge_ab, edge_aa])) example_request initial_proc) =
     Inr [\<lparr>fact = ''Alice lives in Berlin'', source = ''a'', target = ''b''\<rparr>,
          \<lparr>fact = [], source = ''a'', target = ''a''\<rparr>]
   \<and> (\<exists>found. fst (search example_config (engine_of None (Inr [edge_ab, edge_aa]))
                      example_request initial_proc) = Inr found \<and>
          length found = 2 \<and> length found \<le> 20)"
proof -
  obtain g where g: "fst (make_graphiti example_config initial_proc ''openai'' ''sk-llm'' []) = Inr g"
    using example_make_graphiti by blast
  note rule = search_projects_engine_edges
      [of example_config "engine_of None (Inr [edge_ab, edge_aa])" example_request initial_proc]
  have "fst (search example_config (engine_of None (Inr [edge_ab, edge_aa])) example_request
               initial_proc) =
          Inr (map (\<lambda>edge. \<lparr>fact = (case edge_fact edge of None \<Rightarrow> [] | Some t \<Rightarrow> t),
                             source = source_node_uuid edge,
                             target = target_node_uuid edge\<rparr>) [edge_ab, edge_aa])"
    unfolding rule [THEN conjunct1]
    using g
    by (simp add: example_request_def engine_of_def strip_def isspace_def)
  then have shape:
    "fst (search example_config (engine_of None (Inr [edge_ab, edge_aa])) example_request
            initial_proc) =
       Inr [\<lparr>fact = ''Alice lives in Berlin'', source = ''a'', target = ''b''\<rparr>,
            \<lparr>fact = [], source = ''a'', target = ''a''\<rparr>]"
    by (simp add: edge_ab_def edge_aa_def)
  have "strip (req_query example_request) \<noteq> [] \<and> req_llm_api_key example_request \<noteq> [] \<and>
        fst (make_graphiti example_config initial_proc (req_llm_provider example_request)
               (req_llm_api_key example_request) (req_openai_api_key example_request)) = Inr g \<and>
        engine_search (engine_of None (Inr [edge_ab, edge_aa])) g (req_query example_request)
          [req_session_id example_request] 20 = Inr [edge_ab, edge_aa]"
    using g by (simp add: example_request_def engine_of_def strip_def isspace_def)
  with rule [THEN conjunct2, rule_format, of g "[edge_ab, edge_aa]"]
  have "\<exists>found. fst (search example_config (engine_of None (Inr [edge_ab, edge_aa]))
                      example_request initial_proc) = Inr found \<and>
          length found = 2 \<and> length found \<le> 20"
    by auto
  with shape show ?thesis by blast
qed

text \<open>
  C8 as stated fails when the engine hands back more edges than requested: with 21
  edges from the engine, \<open>search\<close> returns 21 results.
\<close>

theorem search_cap_counterexample:
  "\<exists>rs. fst (search example_config (engine_of None (Inr (replicate 21 edge_ab))) example_request
               initial_proc) = Inr rs \<and> length rs = 21 \<and> \<not> length rs \<le> 20"
  by (simp add: example_search)

end
